theory Spec2Isabelle
  imports Complex_Main "HOL-Library.Sublist"
begin

section \<open>Python values, exceptions and strings\<close>

text \<open>
  The program is Python. Integers are unbounded (\<open>int\<close>); strings are \<open>string\<close>, the
  UTF-8 bytes of the Python text (the only non-ASCII text of the program is the dash of
  the fallback reason). Every \<open>raise\<close> is a value \<open>Inl e\<close> of the result type
  \<open>exn + 'a\<close>.
\<close>

datatype FilterAction = SKIP | CLASSIFY | FORCE_NOTIFY

text \<open>
  A float is only ever compared with zero or truncated by \<open>int()\<close>, so its value is
  kept exactly: a rational, an infinity or a NaN.
\<close>

datatype pyfloat = Finite rat | PosInf | NegInf | NaN

text \<open>
  The objects that \<open>yaml.safe_load\<close> and the JSON decoders hand to the program. A
  \<open>dict\<close> is an association list read with \<open>map_of\<close>; \<open>PObject\<close> stands for an
  object of any other class (a YAML timestamp, say), named by its class.
\<close>

datatype pyval =
    PNone
  | PBool bool
  | PInt int
  | PFloat pyfloat
  | PStr string
  | PList "pyval list"
  | PDict "(pyval \<times> pyval) list"
  | PObject string

text \<open>
  The exception classes that the libraries used here raise. \<open>ReError\<close> is
  \<open>re.error\<close>; \<open>ConnectionError\<close>, \<open>ProxyError\<close>, \<open>SSLError\<close>, \<open>Timeout\<close>,
  \<open>ConnectTimeout\<close>, \<open>ReadTimeout\<close>, \<open>HTTPError\<close> and \<open>TooManyRedirects\<close> are
  the classes of \<open>requests.exceptions\<close>; \<open>JSONDecodeError\<close> is the one of \<open>json\<close>
  (the one of \<open>requests\<close> derives from it).
\<close>

datatype exn =
    ConnectionError | ProxyError | SSLError
  | Timeout | ConnectTimeout | ReadTimeout
  | HTTPError | TooManyRedirects
  | KeyError | TypeError | ValueError | JSONDecodeError
  | OverflowError | RecursionError | ReError
  | OtherException string  \<comment> \<open>a class with none of the classes above among its bases\<close>

text \<open>The proper subclass relation among these classes, as the libraries declare it.\<close>

definition base_classes :: "(exn \<times> exn) list" where
  "base_classes =
     [(ProxyError, ConnectionError), (SSLError, ConnectionError),
      (ConnectTimeout, ConnectionError), (ConnectTimeout, Timeout),
      (ReadTimeout, Timeout), (JSONDecodeError, ValueError)]"

definition isinstance :: "exn \<Rightarrow> exn list \<Rightarrow> bool" where
  \<comment> \<open>\<open>except (C1, ..., Cn)\<close> catches an exception of class \<open>e\<close>\<close>
  "isinstance e classes = list_ex (\<lambda>c. e = c \<or> (e, c) \<in> set base_classes) classes"

definition bind_exn :: "exn + 'a \<Rightarrow> ('a \<Rightarrow> exn + 'b) \<Rightarrow> exn + 'b" where
  \<comment> \<open>statement sequencing: an exception of the first statement skips the rest\<close>
  "bind_exn m f = (case m of Inl e \<Rightarrow> Inl e | Inr v \<Rightarrow> f v)"

definition newline :: string where
  "newline = [CHR 0x0A]"

definition startswith :: "string \<Rightarrow> string \<Rightarrow> bool" where
  "startswith s p = prefix p s"

definition ascii_uppercase :: string where
  "ascii_uppercase = ''ABCDEFGHIJKLMNOPQRSTUVWXYZ''"

definition ascii_lowercase :: string where
  "ascii_lowercase = ''abcdefghijklmnopqrstuvwxyz''"

definition lower_char :: "char \<Rightarrow> char" where
  \<comment> \<open>the lower-case letter of an ASCII capital, any other byte itself\<close>
  "lower_char c =
     (case map_of (zip ascii_uppercase ascii_lowercase) c of Some d \<Rightarrow> d | None \<Rightarrow> c)"

definition isascii :: "string \<Rightarrow> bool" where
  \<comment> \<open>\<open>str.isascii()\<close>: no byte of the UTF-8 text has its top bit set\<close>
  "isascii s = list_all (\<lambda>c. \<not> digit7 c) s"



definition dict_get :: "(pyval \<times> pyval) list \<Rightarrow> string \<Rightarrow> pyval option" where
  \<comment> \<open>\<open>d[k]\<close> for a string key: only a string key equals it\<close>
  "dict_get d k = map_of d (PStr k)"

fun getitem :: "pyval \<Rightarrow> string \<Rightarrow> exn + pyval" where
  \<comment> \<open>\<open>v[k]\<close> for a string \<open>k\<close>: only a dict can be subscripted by a string\<close>
  "getitem (PDict d) k = (case dict_get d k of None \<Rightarrow> Inl KeyError | Some v \<Rightarrow> Inr v)"
| "getitem _ k = Inl TypeError"

section \<open>The libraries and the network\<close>

datatype re_flag = NOFLAG | IGNORECASE

record response =
  status_code :: nat
  resp_json :: "exn + pyval"  \<comment> \<open>what \<open>resp.json()\<close> raises or returns\<close>

datatype http_result = PostRaises exn | PostReturns response

record chat_request =
  req_model :: string
  req_messages :: "(string \<times> string) list"  \<comment> \<open>role and content\<close>
  req_format :: pyval
  req_stream :: bool

text \<open>
  What the program calls and does not define: \<open>requests.post(url, json=body,
  timeout=t)\<close>, \<open>json.loads\<close> on a string, \<open>int()\<close> on a string (\<open>None\<close> is its
  \<open>ValueError\<close>), \<open>str()\<close> on an object that is not a string, \<open>str.lower()\<close> on a
  string with a character beyond ASCII (the case tables of Unicode and its rule for a
  final sigma), and \<open>re.search(regex, text, flags)\<close> read as a truth value. The
  theorems hold for every such environment.
\<close>

record env =
  requests_post :: "string \<Rightarrow> chat_request \<Rightarrow> pyval \<Rightarrow> http_result"
  json_loads :: "string \<Rightarrow> exn + pyval"
  int_of_str :: "string \<Rightarrow> int option"
  str_of :: "pyval \<Rightarrow> string"
  str_lower :: "string \<Rightarrow> string"
  re_search :: "string \<Rightarrow> string \<Rightarrow> re_flag \<Rightarrow> exn + bool"

text \<open>
  \<open>s.lower()\<close>. On an ASCII string it turns the capitals \<open>A\<close> to \<open>Z\<close> into their
  lower-case letters and leaves every other character; on any other string it is what
  the environment says.
\<close>

definition lower :: "env \<Rightarrow> string \<Rightarrow> string" where
  "lower env s = (if isascii s then map lower_char s else str_lower env s)"

definition py_str :: "env \<Rightarrow> pyval \<Rightarrow> string" where
  "py_str env v = (case v of PStr s \<Rightarrow> s | _ \<Rightarrow> str_of env v)"

definition truncate :: "rat \<Rightarrow> int" where
  "truncate r = (if 0 \<le> r then \<lfloor>r\<rfloor> else \<lceil>r\<rceil>)"

fun py_int :: "env \<Rightarrow> pyval \<Rightarrow> exn + int" where
  "py_int env (PInt n) = Inr n"
| "py_int env (PBool b) = Inr (if b then 1 else 0)"
| "py_int env (PFloat (Finite r)) = Inr (truncate r)"
| "py_int env (PFloat NaN) = Inl ValueError"
| "py_int env (PFloat _) = Inl OverflowError"
| "py_int env (PStr s) = (case int_of_str env s of None \<Rightarrow> Inl ValueError | Some n \<Rightarrow> Inr n)"
| "py_int env _ = Inl TypeError"

fun py_json_loads :: "env \<Rightarrow> pyval \<Rightarrow> exn + pyval" where
  "py_json_loads env (PStr s) = json_loads env s"
| "py_json_loads env _ = Inl TypeError"

section \<open>models.py\<close>

record SlackMessage =
  channel :: string
  channel_id :: string
  sender :: string
  sender_id :: string
  "text" :: string
  thread_ts :: "string option"
  is_dm :: bool
  is_mention :: bool
  is_bot :: bool

record Classification =
  urgency :: int
  reason :: string

record FilterResult =
  action :: FilterAction
  rule :: string

section \<open>config.py\<close>

definition DEFAULT_SYSTEM_PROMPT :: string where
  \<open>DEFAULT_SYSTEM_PROMPT =
     ''You are a Slack notification triage assistant. Classify the urgency of the'' @ newline @
     ''following message on a scale of 1-5:'' @ newline @
     newline @
     ''1 - Noise: automated messages, routine updates, social chatter'' @ newline @
     ''2 - Low: informational, no action needed soon'' @ newline @
     ''3 - Medium: relevant to your work, may need attention within hours'' @ newline @
     ''4 - High: needs your attention soon, action required'' @ newline @
     ''5 - Critical: immediate action required, outage, security incident, or direct request for urgent help'' @ newline @
     newline @
     ''Respond with a JSON object containing "urgency" (integer 1-5) and "reason" (brief explanation).'' @ newline\<close>

definition DEFAULT_RULES :: "string \<rightharpoonup> FilterAction" where
  "DEFAULT_RULES =
     map_of [(''self'', SKIP), (''bots'', SKIP), (''mentions'', FORCE_NOTIFY),
             (''dms'', FORCE_NOTIFY), (''default'', CLASSIFY)]"

definition VALID_RULE_KEYS :: "string list" where
  "VALID_RULE_KEYS = [''self'', ''bots'', ''mentions'', ''dms'', ''default'']"

text \<open>
  An entry of \<open>config.keywords\<close>: a dict read at the keys \<open>"pattern"\<close> and \<open>"action"\<close>
  only. \<open>load_config\<close> leaves the pattern as the YAML document gave it and replaces
  the action, when the entry has one, by the enumeration member.
\<close>

record kw_entry =
  entry_pattern :: "pyval option"
  entry_action :: "FilterAction option"

text \<open>The same entry once \<open>_validate_config\<close> has accepted it.\<close>

record keyword =
  kw_pattern :: string
  kw_action :: FilterAction

text \<open>
  The class \<open>Config\<close>. \<open>load_config\<close> stores \<open>urgency_threshold\<close> and the keyword
  entries as the YAML document gave them (\<open>'t = pyval\<close>, \<open>'k = kw_entry\<close>) and
  \<open>_validate_config\<close> then checks them: from there on they have the declared types
  (\<open>'t = int\<close>, \<open>'k = keyword\<close>). The two timeouts stay as the document gave them: no
  function modelled here computes with them.
\<close>

record ('t, 'k) Config_of =
  model :: string
  ollama_url :: string
  ollama_timeout :: pyval
  urgency_threshold :: 't
  system_prompt :: string
  rules :: "string \<rightharpoonup> FilterAction"
  channels :: "string \<rightharpoonup> FilterAction"
  "keywords" :: "'k list"
  notification_timeout :: pyval

type_synonym LoadedConfig = "(pyval, kw_entry) Config_of"

type_synonym Config = "(int, keyword) Config_of"

definition default_loaded :: LoadedConfig where
  \<comment> \<open>\<open>Config()\<close>, as \<open>load_config\<close> starts from it\<close>
  "default_loaded =
     \<lparr>model = ''llama3.2:3b'', ollama_url = ''http://localhost:11434'',
      ollama_timeout = PInt 3, urgency_threshold = PInt 3,
      system_prompt = DEFAULT_SYSTEM_PROMPT, rules = DEFAULT_RULES, channels = Map.empty,
      keywords = [], notification_timeout = PInt 10\<rparr>"

definition default_config :: Config where
  \<comment> \<open>\<open>Config()\<close>, with its fields at their declared types\<close>
  "default_config =
     \<lparr>model = ''llama3.2:3b'', ollama_url = ''http://localhost:11434'',
      ollama_timeout = PInt 3, urgency_threshold = 3,
      system_prompt = DEFAULT_SYSTEM_PROMPT, rules = DEFAULT_RULES, channels = Map.empty,
      keywords = [], notification_timeout = PInt 10\<rparr>"

definition parse_action :: "pyval \<Rightarrow> exn + FilterAction" where
  \<comment> \<open>\<open>FilterAction(value)\<close>: the member with that value, or \<open>ValueError\<close>\<close>
  "parse_action v =
     (if v = PStr ''skip'' then Inr SKIP
      else if v = PStr ''classify'' then Inr CLASSIFY
      else if v = PStr ''force_notify'' then Inr FORCE_NOTIFY
      else Inl ValueError)"

fun validate_keywords :: "kw_entry list \<Rightarrow> exn + keyword list" where
  "validate_keywords [] = Inr []"
| "validate_keywords (kw # kws) =
     (case entry_pattern kw of
        None \<Rightarrow> Inl ValueError
      | Some p \<Rightarrow>
          (case entry_action kw of
             None \<Rightarrow> Inl ValueError
           | Some a \<Rightarrow>
               (case p of
                  PStr s \<Rightarrow>
                    (case validate_keywords kws of
                       Inl e \<Rightarrow> Inl e
                     | Inr ks \<Rightarrow> Inr (\<lparr>kw_pattern = s, kw_action = a\<rparr> # ks))
                | _ \<Rightarrow> Inl ValueError)))"

definition validate_threshold :: "pyval \<Rightarrow> exn + int" where
  \<comment> \<open>\<open>isinstance(x, int)\<close> holds of an \<open>int\<close> and of a \<open>bool\<close> (\<open>True\<close> is 1), then \<open>1 <= x <= 5\<close>\<close>
  "validate_threshold v =
     (case v of
        PInt n \<Rightarrow> if 1 \<le> n \<and> n \<le> 5 then Inr n else Inl ValueError
      | PBool b \<Rightarrow> if b then Inr 1 else Inl ValueError
      | _ \<Rightarrow> Inl ValueError)"

definition validate_timeout :: "pyval \<Rightarrow> exn + unit" where
  \<comment> \<open>\<open>isinstance(x, (int, float))\<close>, then \<open>ValueError\<close> when \<open>x <= 0\<close>\<close>
  "validate_timeout v =
     (case v of
        PInt n \<Rightarrow> if n \<le> 0 then Inl ValueError else Inr ()
      | PBool b \<Rightarrow> if b then Inr () else Inl ValueError
      | PFloat (Finite r) \<Rightarrow> if r \<le> 0 then Inl ValueError else Inr ()
      | PFloat NegInf \<Rightarrow> Inl ValueError
      | PFloat _ \<Rightarrow> Inr ()
      | _ \<Rightarrow> Inl ValueError)"

definition validate_config :: "LoadedConfig \<Rightarrow> exn + Config" where
  "validate_config config =
     bind_exn (validate_threshold (urgency_threshold config)) (\<lambda>threshold.
     bind_exn (validate_timeout (ollama_timeout config)) (\<lambda>_.
     bind_exn (validate_keywords (keywords config)) (\<lambda>kws.
       Inr \<lparr>model = model config, ollama_url = ollama_url config,
            ollama_timeout = ollama_timeout config, urgency_threshold = threshold,
            system_prompt = system_prompt config, rules = rules config,
            channels = channels config, keywords = kws,
            notification_timeout = notification_timeout config\<rparr>)))"

fun load_rules :: "(pyval \<times> pyval) list \<Rightarrow> (string \<rightharpoonup> FilterAction) \<Rightarrow> exn + (string \<rightharpoonup> FilterAction)" where
  "load_rules [] acc = Inr acc"
| "load_rules ((key, v) # rest) acc =
     (case key of
        PStr name \<Rightarrow>
          if name \<in> set VALID_RULE_KEYS
          then (case parse_action v of
                  Inl e \<Rightarrow> Inl e
                | Inr a \<Rightarrow> load_rules rest (acc(name \<mapsto> a)))
          else load_rules rest acc
      | _ \<Rightarrow> load_rules rest acc)"

text \<open>
  A channel key that is not a string is checked like the others and then left out of
  the mapping: \<open>pre_filter\<close> looks a string up, and no other key equals a string.
\<close>

fun load_channels :: "(pyval \<times> pyval) list \<Rightarrow> (string \<rightharpoonup> FilterAction) \<Rightarrow> exn + (string \<rightharpoonup> FilterAction)" where
  "load_channels [] acc = Inr acc"
| "load_channels ((key, v) # rest) acc =
     (case parse_action v of
        Inl e \<Rightarrow> Inl e
      | Inr a \<Rightarrow>
          (case key of
             PStr name \<Rightarrow> load_channels rest (acc(name \<mapsto> a))
           | _ \<Rightarrow> load_channels rest acc))"

fun load_keywords :: "pyval list \<Rightarrow> exn + kw_entry list" where
  "load_keywords [] = Inr []"
| "load_keywords (entry # rest) =
     (case entry of
        PDict d \<Rightarrow>
          (case (case dict_get d ''action'' of
                   None \<Rightarrow> Inr None
                 | Some v \<Rightarrow> (case parse_action v of Inl e \<Rightarrow> Inl e | Inr a \<Rightarrow> Inr (Some a))) of
             Inl e \<Rightarrow> Inl e
           | Inr a \<Rightarrow>
               (case load_keywords rest of
                  Inl e \<Rightarrow> Inl e
                | Inr es \<Rightarrow> Inr (\<lparr>entry_pattern = dict_get d ''pattern'', entry_action = a\<rparr> # es)))
      | _ \<Rightarrow> Inl ValueError)"

definition load_config :: "env \<Rightarrow> pyval \<Rightarrow> exn + Config" where
  \<comment> \<open>from the document \<open>raw\<close> that \<open>yaml.safe_load\<close> returned\<close>
  "load_config env raw =
     (case (if raw = PNone then PDict [] else raw) of
        PDict d \<Rightarrow>
          bind_exn (case dict_get d ''rules'' of
                      None \<Rightarrow> Inr DEFAULT_RULES
                    | Some (PDict raw_rules) \<Rightarrow> load_rules raw_rules DEFAULT_RULES
                    | Some _ \<Rightarrow> Inl ValueError) (\<lambda>rs.
          bind_exn (case dict_get d ''channels'' of
                      None \<Rightarrow> Inr Map.empty
                    | Some (PDict raw_channels) \<Rightarrow> load_channels raw_channels Map.empty
                    | Some _ \<Rightarrow> Inl ValueError) (\<lambda>chs.
          bind_exn (case dict_get d ''keywords'' of
                      None \<Rightarrow> Inr []
                    | Some (PList raw_keywords) \<Rightarrow> load_keywords raw_keywords
                    | Some _ \<Rightarrow> Inl ValueError) (\<lambda>kws.
          validate_config
            \<lparr>model = (case dict_get d ''model'' of
                        None \<Rightarrow> model default_loaded | Some v \<Rightarrow> py_str env v),
             ollama_url = (case dict_get d ''ollama_url'' of
                        None \<Rightarrow> ollama_url default_loaded | Some v \<Rightarrow> py_str env v),
             ollama_timeout = (case dict_get d ''ollama_timeout'' of
                        None \<Rightarrow> ollama_timeout default_loaded | Some v \<Rightarrow> v),
             urgency_threshold = (case dict_get d ''urgency_threshold'' of
                        None \<Rightarrow> urgency_threshold default_loaded | Some v \<Rightarrow> v),
             system_prompt = (case dict_get d ''system_prompt'' of
                        None \<Rightarrow> system_prompt default_loaded | Some v \<Rightarrow> py_str env v),
             rules = rs, channels = chs, keywords = kws,
             notification_timeout = (case dict_get d ''notification_timeout'' of
                        None \<Rightarrow> notification_timeout default_loaded | Some v \<Rightarrow> v)\<rparr>)))
      | _ \<Rightarrow> Inl ValueError)"

section \<open>filters.py\<close>

text \<open>
  The loop over \<open>config.keywords\<close>: the decision of the first entry that matches,
  \<open>None\<close> when the loop ends without one, and the exception of \<open>re.search\<close> when it
  raises on the way.
\<close>

fun match_keywords :: "env \<Rightarrow> keyword list \<Rightarrow> SlackMessage \<Rightarrow> exn + FilterResult option" where
  "match_keywords env [] msg = Inr None"
| "match_keywords env (kw # kws) msg =
     (let pattern = kw_pattern kw in
      if startswith pattern ''regex:''
      then (let regex = drop (length ''regex:'') pattern in
            case re_search env regex (text msg) IGNORECASE of
              Inl e \<Rightarrow> Inl e
            | Inr found \<Rightarrow>
                if found
                then Inr (Some \<lparr>action = kw_action kw, rule = ''keyword:'' @ pattern\<rparr>)
                else match_keywords env kws msg)
      else if sublist (lower env pattern) (lower env (text msg))
           then Inr (Some \<lparr>action = kw_action kw, rule = ''keyword:'' @ pattern\<rparr>)
           else match_keywords env kws msg)"

definition rule_action :: "Config \<Rightarrow> string \<Rightarrow> string \<Rightarrow> exn + FilterResult" where
  \<comment> \<open>\<open>FilterResult(action=config.rules[name], rule=label)\<close>\<close>
  "rule_action config name label =
     (case rules config name of
        None \<Rightarrow> Inl KeyError
      | Some a \<Rightarrow> Inr \<lparr>action = a, rule = label\<rparr>)"

definition pre_filter :: "env \<Rightarrow> SlackMessage \<Rightarrow> Config \<Rightarrow> string \<Rightarrow> exn + FilterResult" where
  "pre_filter env msg config bot_user_id =
     (if sender_id msg = bot_user_id then rule_action config ''self'' ''self''
      else if is_bot msg then rule_action config ''bots'' ''bots''
      else
        (case match_keywords env (keywords config) msg of
           Inl e \<Rightarrow> Inl e
         | Inr (Some result) \<Rightarrow> Inr result
         | Inr None \<Rightarrow>
             if is_mention msg then rule_action config ''mentions'' ''mentions''
             else if is_dm msg then rule_action config ''dms'' ''dms''
             else
               (case channels config (channel msg) of
                  Some a \<Rightarrow> Inr \<lparr>action = a, rule = ''channel:'' @ channel msg\<rparr>
                | None \<Rightarrow> rule_action config ''default'' ''default'')))"

section \<open>llm_classifier.py\<close>

definition RESPONSE_SCHEMA :: pyval where
  "RESPONSE_SCHEMA =
     PDict [(PStr ''type'', PStr ''object''),
            (PStr ''properties'',
               PDict [(PStr ''urgency'', PDict [(PStr ''type'', PStr ''integer'')]),
                      (PStr ''reason'', PDict [(PStr ''type'', PStr ''string'')])]),
            (PStr ''required'', PList [PStr ''urgency'', PStr ''reason''])]"

definition build_user_content :: "SlackMessage \<Rightarrow> string" where
  "build_user_content msg =
     ''Channel: '' @ channel msg @ newline @
     ''Sender: '' @ sender msg @ newline @
     ''DM: '' @ (if is_dm msg then ''yes'' else ''no'') @ newline @
     ''Message: '' @ text msg"

definition fallback_reason :: string where
  \<comment> \<open>the dash is U+2014, three bytes in UTF-8\<close>
  "fallback_reason =
     ''LLM unavailable '' @ [CHR 0xE2, CHR 0x80, CHR 0x94] @ '' notifying as precaution''"

definition fallback :: "Config \<Rightarrow> Classification" where
  \<comment> \<open>\<open>_fallback(config, context)\<close>; the context only goes to the log\<close>
  "fallback config = \<lparr>urgency = urgency_threshold config, reason = fallback_reason\<rparr>"

definition request_body :: "SlackMessage \<Rightarrow> Config \<Rightarrow> chat_request" where
  "request_body msg config =
     \<lparr>req_model = model config,
      req_messages = [(''system'', system_prompt config), (''user'', build_user_content msg)],
      req_format = RESPONSE_SCHEMA,
      req_stream = False\<rparr>"

definition raise_for_status :: "response \<Rightarrow> exn + unit" where
  \<comment> \<open>\<open>resp.raise_for_status()\<close>: \<open>HTTPError\<close> on a 4xx or 5xx status\<close>
  "raise_for_status resp =
     (if 400 \<le> status_code resp \<and> status_code resp < 600 then Inl HTTPError else Inr ())"

definition classify_try :: "env \<Rightarrow> SlackMessage \<Rightarrow> Config \<Rightarrow> exn + int \<times> string" where
  \<comment> \<open>the body of the \<open>try\<close>: the urgency and the reason it binds, or what it raises\<close>
  "classify_try env msg config =
     (case requests_post env (ollama_url config @ ''/api/chat'') (request_body msg config)
             (ollama_timeout config) of
        PostRaises e \<Rightarrow> Inl e
      | PostReturns resp \<Rightarrow>
          bind_exn (raise_for_status resp) (\<lambda>_.
          bind_exn (resp_json resp) (\<lambda>data.
          bind_exn (getitem data ''message'') (\<lambda>message.
          bind_exn (getitem message ''content'') (\<lambda>embedded.
          bind_exn (py_json_loads env embedded) (\<lambda>content.
          bind_exn (getitem content ''urgency'') (\<lambda>raw_urgency.
          bind_exn (py_int env raw_urgency) (\<lambda>u.
          bind_exn (getitem content ''reason'') (\<lambda>raw_reason.
            Inr (u, py_str env raw_reason))))))))))"

definition classify :: "env \<Rightarrow> SlackMessage \<Rightarrow> Config \<Rightarrow> exn + Classification" where
  "classify env msg config =
     (case classify_try env msg config of
        Inl e \<Rightarrow>
          if isinstance e [ConnectionError, Timeout] then Inr (fallback config)
          else if isinstance e [KeyError, TypeError, ValueError, JSONDecodeError]
          then Inr (fallback config)
          else Inl e
      | Inr (u, r) \<Rightarrow> Inr \<lparr>urgency = max 1 (min 5 u), reason = r\<rparr>)"

section \<open>notifier.py\<close>

definition urgency_level :: "int option \<Rightarrow> string" where
  "urgency_level score =
     (case score of
        None \<Rightarrow> ''normal''
      | Some u \<Rightarrow> if u \<le> 2 then ''low'' else if u \<le> 3 then ''normal'' else ''critical'')"

section \<open>main.py\<close>

text \<open>A call \<open>notify(msg, reason=..., urgency=..., config=config)\<close>; the urgency defaults to \<open>None\<close>.\<close>

datatype notify_call = Notify SlackMessage string "int option"

text \<open>
  \<open>handle_message\<close>, from the result of \<open>listener.parse_event\<close> on: the calls of
  \<open>notify\<close> it makes, or the exception that leaves it.
\<close>

definition handle_message :: "env \<Rightarrow> SlackMessage option \<Rightarrow> Config \<Rightarrow> string \<Rightarrow> exn + notify_call list" where
  "handle_message env parsed config bot_user_id =
     (case parsed of
        None \<Rightarrow> Inr []
      | Some msg \<Rightarrow>
          (case pre_filter env msg config bot_user_id of
             Inl e \<Rightarrow> Inl e
           | Inr result \<Rightarrow>
               if action result = SKIP then Inr []
               else if action result = FORCE_NOTIFY
               then Inr [Notify msg (''Matched rule: '' @ rule result) None]
               else
                 (case classify env msg config of
                    Inl e \<Rightarrow> Inl e
                  | Inr classification \<Rightarrow>
                      if urgency classification \<ge> urgency_threshold config
                      then Inr [Notify msg (reason classification)
                                  (Some (urgency classification))]
                      else Inr [])))"

section \<open>The test of one keyword entry\<close>

text \<open>
  The condition under which the loop of \<open>pre_filter\<close> returns at the entry \<open>kw\<close>: the
  \<open>re.search\<close> of the regex-tagged branch, or the substring test of the other.
\<close>

definition keyword_test :: "env \<Rightarrow> keyword \<Rightarrow> SlackMessage \<Rightarrow> exn + bool" where
  "keyword_test env kw msg =
     (if startswith (kw_pattern kw) ''regex:''
      then re_search env (drop (length ''regex:'') (kw_pattern kw)) (text msg) IGNORECASE
      else Inr (sublist (lower env (kw_pattern kw)) (lower env (text msg))))"

section \<open>Inputs of the examples\<close>

text \<open>
  The closed examples below need an environment to run in. Its regular expressions are
  of two forms. A literal one (no special character) is searched as \<open>re.search\<close> does
  on ASCII text, by substring, of the lowered strings under \<open>IGNORECASE\<close>. A literal
  inside the group \<open>(?-i:...)\<close>, which switches \<open>IGNORECASE\<close> off for what it
  encloses, is searched by substring as it is written, whatever the flag. Any other
  pattern is outside this fragment and is reported as one that does not compile, which
  is what \<open>re\<close> does with the only such pattern the examples use, the unclosed group
  \<open>(\<close>.
\<close>

definition has_special :: "string \<Rightarrow> bool" where
  \<open>has_special regex = list_ex (\<lambda>c. c \<in> set ''.^$*+?{}[]|()'' \<or> c = CHR 0x5C) regex\<close>

definition scoped_literal :: "string \<Rightarrow> string option" where
  "scoped_literal regex =
     (let body = drop (length ''(?-i:'') regex in
      if startswith regex ''(?-i:'' \<and> body \<noteq> [] \<and> last body = CHR '')''
         \<and> \<not> has_special (butlast body)
      then Some (butlast body) else None)"

definition literal_re_search :: "string \<Rightarrow> string \<Rightarrow> re_flag \<Rightarrow> exn + bool" where
  "literal_re_search regex t flag =
     (if has_special regex
      then (case scoped_literal regex of
              Some literal \<Rightarrow> Inr (sublist literal t)
            | None \<Rightarrow> Inl ReError)
      else Inr (case flag of
                  IGNORECASE \<Rightarrow> sublist (map lower_char regex) (map lower_char t)
                | NOFLAG \<Rightarrow> sublist regex t))"

text \<open>
  \<open>str.lower()\<close> beyond ASCII, on the strings that the examples use, in UTF-8. The
  French word for school in capitals and in small letters: its first letter, E with an
  acute accent, is C3 89 as a capital and C3 A9 as a small letter. The Greek capitals
  alpha sigma, and the capital sigma alone: capital alpha is CE 91, capital sigma CE A3,
  small alpha CE B1, small sigma CF 83 and final small sigma CF 82; a capital sigma that
  ends a word becomes the final small sigma, one that stands alone the small sigma.
\<close>

definition ecole_upper :: string where
  "ecole_upper = [CHR 0xC3, CHR 0x89] @ ''COLE''"

definition ecole_lower :: string where
  "ecole_lower = [CHR 0xC3, CHR 0xA9] @ ''cole''"

definition capital_sigma :: string where
  "capital_sigma = [CHR 0xCE, CHR 0xA3]"

definition alpha_sigma :: string where
  \<comment> \<open>capital alpha, then capital sigma\<close>
  "alpha_sigma = [CHR 0xCE, CHR 0x91] @ capital_sigma"

definition sample_str_lower :: "string \<Rightarrow> string" where
  "sample_str_lower s =
     (case map_of
             [(ecole_upper, ecole_lower),
              (ecole_lower, ecole_lower),
              (alpha_sigma, [CHR 0xCE, CHR 0xB1, CHR 0xCF, CHR 0x82]),
              (capital_sigma, [CHR 0xCF, CHR 0x83])] s of
        Some l \<Rightarrow> l
      | None \<Rightarrow> map lower_char s)"

text \<open>
  The JSON documents of the examples are the replies \<open>{"urgency": u, "reason": r}\<close> of
  the test suite; the decoder of the examples knows these and reports any other string
  as undecodable.
\<close>

definition reply_text :: "string \<Rightarrow> string \<Rightarrow> string" where
  \<open>reply_text u r = ''{"urgency": '' @ u @ '', "reason": "'' @ r @ ''"}''\<close>

definition reply_doc :: "int \<Rightarrow> string \<Rightarrow> pyval" where
  "reply_doc u r = PDict [(PStr ''urgency'', PInt u), (PStr ''reason'', PStr r)]"

definition sample_json_loads :: "string \<Rightarrow> exn + pyval" where
  "sample_json_loads s =
     (case map_of
             [(reply_text ''0'' ''very low'', reply_doc 0 ''very low''),
              (reply_text ''-3'' ''way below'', reply_doc (- 3) ''way below''),
              (reply_text ''7'' ''off the charts'', reply_doc 7 ''off the charts''),
              (reply_text ''1'' ''boundary'', reply_doc 1 ''boundary''),
              (reply_text ''5'' ''boundary'', reply_doc 5 ''boundary''),
              (reply_text ''3'' ''relevant'', reply_doc 3 ''relevant''),
              (reply_text ''2'' ''routine'', reply_doc 2 ''routine'')] s of
        None \<Rightarrow> Inl JSONDecodeError
      | Some v \<Rightarrow> Inr v)"

text \<open>\<open>int()\<close> of a string of decimal digits with an optional sign, \<open>ValueError\<close> otherwise.\<close>

fun digits_value :: "string \<Rightarrow> nat \<Rightarrow> nat option" where
  "digits_value [] acc = Some acc"
| "digits_value (c # cs) acc =
     (case map_of (zip ''0123456789'' [0, 1, 2, 3, 4, 5, 6, 7, 8, 9]) c of
        None \<Rightarrow> None
      | Some d \<Rightarrow> digits_value cs (10 * acc + d))"

definition decimal_int :: "string \<Rightarrow> int option" where
  "decimal_int s =
     (case s of
        [] \<Rightarrow> None
      | c # cs \<Rightarrow>
          if c = CHR ''-'' then (if cs = [] then None else map_option (\<lambda>n. - int n) (digits_value cs 0))
          else if c = CHR ''+'' then (if cs = [] then None else map_option int (digits_value cs 0))
          else map_option int (digits_value s 0))"

text \<open>\<open>str()\<close> of \<open>None\<close> and of the truth values; the examples print no other object.\<close>

definition sample_str_of :: "pyval \<Rightarrow> string" where
  "sample_str_of v =
     (case v of PNone \<Rightarrow> ''None'' | PBool b \<Rightarrow> (if b then ''True'' else ''False'') | _ \<Rightarrow> [])"

definition sample_env :: "http_result \<Rightarrow> env" where
  \<comment> \<open>an environment in which every \<open>requests.post\<close> ends in the given way\<close>
  "sample_env outcome =
     \<lparr>requests_post = (\<lambda>url body timeout. outcome),
      json_loads = sample_json_loads,
      int_of_str = decimal_int,
      str_of = sample_str_of,
      str_lower = sample_str_lower,
      re_search = literal_re_search\<rparr>"

definition ollama_response :: "string \<Rightarrow> http_result" where
  \<comment> \<open>a 200 response whose body is \<open>{"message": {"role": "assistant", "content": c}}\<close>\<close>
  "ollama_response c =
     PostReturns
       \<lparr>status_code = 200,
        resp_json = Inr (PDict [(PStr ''message'',
                     PDict [(PStr ''role'', PStr ''assistant''), (PStr ''content'', PStr c)])])\<rparr>"

definition http_500 :: http_result where
  \<comment> \<open>a response with status 500 Internal Server Error and an empty JSON object as body\<close>
  "http_500 = PostReturns \<lparr>status_code = 500, resp_json = Inr (PDict [])\<rparr>"

definition make_msg :: SlackMessage where
  \<comment> \<open>the default message of the test suite\<close>
  "make_msg =
     \<lparr>channel = ''#general'', channel_id = ''C123'', sender = ''alice'',
      sender_id = ''U_ALICE'', text = ''hello world'', thread_ts = None,
      is_dm = False, is_mention = False, is_bot = False\<rparr>"

definition unclosed_group_yaml :: pyval where
  \<comment> \<open>the document \<open>keywords: [{pattern: "regex:(", action: skip}]\<close>\<close>
  "unclosed_group_yaml =
     PDict [(PStr ''keywords'',
       PList [PDict [(PStr ''pattern'', PStr ''regex:(''), (PStr ''action'', PStr ''skip'')]])]"

definition offline :: env where
  \<comment> \<open>the environment of the examples that make no request, or reach nobody\<close>
  "offline = sample_env (PostRaises ConnectionError)"

definition unclosed_group_config :: Config where
  \<comment> \<open>what \<open>load_config\<close> makes of \<open>unclosed_group_yaml\<close>\<close>
  "unclosed_group_config =
     default_config\<lparr>keywords := [\<lparr>kw_pattern = ''regex:('', kw_action = SKIP\<rparr>]\<rparr>"

definition incident_yaml :: pyval where
  \<comment> \<open>a document with a plain and a regex-tagged keyword\<close>
  "incident_yaml =
     PDict [(PStr ''urgency_threshold'', PInt 3),
            (PStr ''keywords'',
               PList [PDict [(PStr ''pattern'', PStr ''production down''),
                             (PStr ''action'', PStr ''force_notify'')],
                      PDict [(PStr ''pattern'', PStr ''regex:incident''),
                             (PStr ''action'', PStr ''classify'')]])]"

definition incident_config :: Config where
  \<comment> \<open>what \<open>load_config\<close> makes of \<open>incident_yaml\<close>\<close>
  "incident_config =
     default_config\<lparr>keywords :=
       [\<lparr>kw_pattern = ''production down'', kw_action = FORCE_NOTIFY\<rparr>,
        \<lparr>kw_pattern = ''regex:incident'', kw_action = CLASSIFY\<rparr>]\<rparr>"


definition catch_all :: Config where
  \<comment> \<open>an empty pattern between two others\<close>
  "catch_all =
     default_config\<lparr>keywords :=
       [\<lparr>kw_pattern = ''production down'', kw_action = FORCE_NOTIFY\<rparr>,
        \<lparr>kw_pattern = [], kw_action = SKIP\<rparr>,
        \<lparr>kw_pattern = ''hello'', kw_action = FORCE_NOTIFY\<rparr>]\<rparr>"

definition loud_msg :: SlackMessage where
  \<comment> \<open>a direct message that mentions the user, is flagged as a bot's and holds a keyword\<close>
  "loud_msg =
     make_msg\<lparr>text := ''PRODUCTION DOWN!!!'', is_dm := True, is_mention := True,
       is_bot := True\<rparr>"






section \<open>Facts about the exception classes and the orchestrator\<close>

lemma isinstance_network:
  "isinstance e [ConnectionError, Timeout] \<longleftrightarrow>
     e \<in> {ConnectionError, ProxyError, SSLError, Timeout, ConnectTimeout, ReadTimeout}"
  by (cases e) (simp_all add: isinstance_def base_classes_def)

lemma isinstance_parsing:
  "isinstance e [KeyError, TypeError, ValueError, JSONDecodeError] \<longleftrightarrow>
     e \<in> {KeyError, TypeError, ValueError, JSONDecodeError}"
  by (cases e) (simp_all add: isinstance_def base_classes_def)

lemma classify_try_post_raises:
  assumes "requests_post env (ollama_url config @ ''/api/chat'') (request_body msg config)
             (ollama_timeout config) = PostRaises e"
  shows "classify_try env msg config = Inl e"
  using assms by (simp add: classify_try_def)

lemma sublist_unavailable: "sublist ''unavailable'' fallback_reason"
  by (simp add: fallback_reason_def sublist_code)

lemma handle_message_classify_path:
  assumes "pre_filter env msg config bot_user_id = Inr result" and "action result = CLASSIFY"
    and "classify env msg config = Inr c"
  shows "handle_message env (Some msg) config bot_user_id =
           Inr (if urgency_threshold config \<le> urgency c
                then [Notify msg (reason c) (Some (urgency c))] else [])"
  using assms by (simp add: handle_message_def)

lemma pre_filter_make_msg:
  "pre_filter (sample_env outcome) make_msg default_config ''U_BOT'' =
     Inr \<lparr>action = CLASSIFY, rule = ''default''\<rparr>"
  by (simp add: pre_filter_def make_msg_def default_config_def DEFAULT_RULES_def
      rule_action_def)

section \<open>The classifier fails open\<close>

text \<open>
  Claim C1. Whatever the message and the configuration, when \<open>requests.post\<close> raises
  a connection failure or a timeout (\<open>requests.ConnectionError\<close>, \<open>requests.Timeout\<close>
  or a subclass of one of them), \<open>classify\<close> returns the classification whose urgency
  is the configured threshold and whose reason is the fixed text, which contains
  \<open>unavailable\<close>; and on the classify path of \<open>handle_message\<close> the comparison
  \<open>>=\<close> then makes exactly one call of \<open>notify\<close>, with that reason and urgency.
\<close>

theorem classifier_unreachable_fails_open:
  assumes post: "requests_post env (ollama_url config @ ''/api/chat'') (request_body msg config)
             (ollama_timeout config) = PostRaises e"
    and net: "isinstance e [ConnectionError, Timeout]"
  shows "classify env msg config =
           Inr \<lparr>urgency = urgency_threshold config, reason = fallback_reason\<rparr>
       \<and> sublist ''unavailable'' fallback_reason
       \<and> (\<forall>bot_user_id result.
            pre_filter env msg config bot_user_id = Inr result \<and> action result = CLASSIFY \<longrightarrow>
            handle_message env (Some msg) config bot_user_id =
              Inr [Notify msg fallback_reason (Some (urgency_threshold config))])"
proof -
  have c: "classify env msg config =
             Inr \<lparr>urgency = urgency_threshold config, reason = fallback_reason\<rparr>"
    using classify_try_post_raises [OF post] net by (simp add: classify_def fallback_def)
  have "handle_message env (Some msg) config bot_user_id =
          Inr [Notify msg fallback_reason (Some (urgency_threshold config))]"
    if "pre_filter env msg config bot_user_id = Inr result" and "action result = CLASSIFY"
    for bot_user_id result
    using handle_message_classify_path [OF that c] by simp
  with c sublist_unavailable show ?thesis by blast
qed

text \<open>
  The theorem at the default message and configuration (threshold 3), with a connect
  timeout, which is both a connection failure and a timeout.
\<close>

theorem classifier_unreachable_fails_open_witness:
  "classify (sample_env (PostRaises ConnectTimeout)) make_msg default_config =
     Inr \<lparr>urgency = 3, reason = fallback_reason\<rparr>
   \<and> handle_message (sample_env (PostRaises ConnectTimeout)) (Some make_msg) default_config
       ''U_BOT'' = Inr [Notify make_msg fallback_reason (Some 3)]"
proof -
  have post: "requests_post (sample_env (PostRaises ConnectTimeout))
       (ollama_url default_config @ ''/api/chat'') (request_body make_msg default_config)
       (ollama_timeout default_config) = PostRaises ConnectTimeout"
    by (simp add: sample_env_def)
  have net: "isinstance ConnectTimeout [ConnectionError, Timeout]"
    by (simp add: isinstance_def base_classes_def)
  have thr: "urgency_threshold default_config = 3"
    by (simp add: default_config_def)
  show ?thesis
    using classifier_unreachable_fails_open [OF post net]
      pre_filter_make_msg [of "PostRaises ConnectTimeout"] thr
    by simp
qed

section \<open>A status that is not a success leaves \<open>classify\<close> as an exception\<close>

lemma classify_raises_http_error:
  assumes "requests_post env (ollama_url config @ ''/api/chat'') (request_body msg config)
             (ollama_timeout config) = PostReturns resp"
    and "400 \<le> status_code resp" and "status_code resp < 600"
  shows "classify env msg config = Inl HTTPError"
  using assms
  by (simp add: classify_def classify_try_def raise_for_status_def bind_exn_def
      isinstance_def base_classes_def)

lemma classify_raises_iff:
  "classify env msg config = Inl e \<longleftrightarrow>
     classify_try env msg config = Inl e
     \<and> \<not> isinstance e [ConnectionError, Timeout]
     \<and> \<not> isinstance e [KeyError, TypeError, ValueError, JSONDecodeError]"
  by (cases "classify_try env msg config") (auto simp add: classify_def)

lemma classify_raises_overflow_error:
  assumes "requests_post env (ollama_url config @ ''/api/chat'') (request_body msg config)
             (ollama_timeout config) = PostReturns resp"
    and "raise_for_status resp = Inr ()"
    and "resp_json resp = Inr data"
    and "getitem data ''message'' = Inr message"
    and "getitem message ''content'' = Inr (PStr s)"
    and "json_loads env s = Inr content"
    and "getitem content ''urgency'' = Inr (PFloat PosInf)"
  shows "classify env msg config = Inl OverflowError"
proof -
  have "classify_try env msg config = Inl OverflowError"
    using assms by (simp add: classify_try_def bind_exn_def)
  then show ?thesis
    by (simp add: classify_raises_iff isinstance_def base_classes_def)
qed

text \<open>
  Claim C2 says that \<open>classify\<close> never raises outward, whatever the failure of the
  call, a response that is not 2xx included. The code calls \<open>resp.raise_for_status()\<close>
  inside the \<open>try\<close>, and neither \<open>except\<close> clause names \<open>requests.HTTPError\<close> or a
  base of it: at a response with status 500 the exception leaves \<open>classify\<close>.
\<close>

theorem classify_raises_on_http_500:
  "classify (sample_env http_500) make_msg default_config = Inl HTTPError"
  by (simp add: classify_def classify_try_def raise_for_status_def bind_exn_def
      isinstance_def base_classes_def sample_env_def http_500_def)

lemma handle_message_raises_on_http_500:
  "handle_message (sample_env http_500) (Some make_msg) default_config ''U_BOT'' =
     Inl HTTPError"
proof -
  have "classify (sample_env http_500) make_msg default_config = Inl HTTPError"
    by (rule classify_raises_http_error [where resp = "\<lparr>status_code = 500, resp_json = Inr (PDict [])\<rparr>"])
      (simp_all add: sample_env_def http_500_def)
  then show ?thesis
    using pre_filter_make_msg [of http_500] by (simp add: handle_message_def)
qed

section \<open>Clamping\<close>

lemma classify_try_decoded:
  assumes "requests_post env (ollama_url config @ ''/api/chat'') (request_body msg config)
             (ollama_timeout config) = PostReturns resp"
    and "raise_for_status resp = Inr ()"
    and "resp_json resp = Inr data"
    and "getitem data ''message'' = Inr message"
    and "getitem message ''content'' = Inr (PStr s)"
    and "json_loads env s = Inr content"
    and "getitem content ''urgency'' = Inr (PInt u)"
    and "getitem content ''reason'' = Inr (PStr r)"
  shows "classify_try env msg config = Inr (u, r)"
  using assms by (simp add: classify_try_def bind_exn_def py_str_def)

lemma sample_reply:
  assumes "sample_json_loads (reply_text digits r) = Inr (reply_doc u r)"
  shows "classify_try (sample_env (ollama_response (reply_text digits r))) make_msg
           default_config = Inr (u, r)"
  using assms
  by (simp add: classify_try_def sample_env_def ollama_response_def raise_for_status_def
      bind_exn_def dict_get_def reply_doc_def py_str_def)

lemma loads_0:
  "sample_json_loads (reply_text ''0'' ''very low'') = Inr (reply_doc 0 ''very low'')"
  by (simp add: sample_json_loads_def reply_text_def)

lemma loads_minus_3:
  "sample_json_loads (reply_text ''-3'' ''way below'') = Inr (reply_doc (- 3) ''way below'')"
  by (simp add: sample_json_loads_def reply_text_def)

lemma loads_7:
  "sample_json_loads (reply_text ''7'' ''off the charts'') =
     Inr (reply_doc 7 ''off the charts'')"
  by (simp add: sample_json_loads_def reply_text_def)

lemma loads_1:
  "sample_json_loads (reply_text ''1'' ''boundary'') = Inr (reply_doc 1 ''boundary'')"
  by (simp add: sample_json_loads_def reply_text_def)

lemma loads_5:
  "sample_json_loads (reply_text ''5'' ''boundary'') = Inr (reply_doc 5 ''boundary'')"
  by (simp add: sample_json_loads_def reply_text_def)

lemma loads_3:
  "sample_json_loads (reply_text ''3'' ''relevant'') = Inr (reply_doc 3 ''relevant'')"
  by (simp add: sample_json_loads_def reply_text_def)

lemma loads_2:
  "sample_json_loads (reply_text ''2'' ''routine'') = Inr (reply_doc 2 ''routine'')"
  by (simp add: sample_json_loads_def reply_text_def)

text \<open>
  Claim C8. When the \<open>try\<close> of \<open>classify\<close> ends without an exception, having read the
  integer \<open>u\<close> as the urgency of the response, \<open>classify\<close> returns a classification
  whose urgency lies in 1..5: it is 1 when \<open>u\<close> is below 1 (so for 0 and -3), 5 when
  \<open>u\<close> is above 5 (so for 7), and \<open>u\<close> itself otherwise (so for 1 and 5).
\<close>

theorem classify_clamps_urgency:
  assumes "classify_try env msg config = Inr (u, r)"
  shows "\<exists>c. classify env msg config = Inr c \<and> reason c = r
           \<and> 1 \<le> urgency c \<and> urgency c \<le> 5
           \<and> (u < 1 \<longrightarrow> urgency c = 1)
           \<and> (1 \<le> u \<and> u \<le> 5 \<longrightarrow> urgency c = u)
           \<and> (5 < u \<longrightarrow> urgency c = 5)"
  using assms by (simp add: classify_def)

text \<open>The five replies of the claim, each through the whole of \<open>classify\<close>.\<close>

theorem classify_clamps_urgency_witness:
  "classify (sample_env (ollama_response (reply_text ''0'' ''very low''))) make_msg
     default_config = Inr \<lparr>urgency = 1, reason = ''very low''\<rparr>
   \<and> classify (sample_env (ollama_response (reply_text ''-3'' ''way below''))) make_msg
     default_config = Inr \<lparr>urgency = 1, reason = ''way below''\<rparr>
   \<and> classify (sample_env (ollama_response (reply_text ''7'' ''off the charts''))) make_msg
     default_config = Inr \<lparr>urgency = 5, reason = ''off the charts''\<rparr>
   \<and> classify (sample_env (ollama_response (reply_text ''1'' ''boundary''))) make_msg
     default_config = Inr \<lparr>urgency = 1, reason = ''boundary''\<rparr>
   \<and> classify (sample_env (ollama_response (reply_text ''5'' ''boundary''))) make_msg
     default_config = Inr \<lparr>urgency = 5, reason = ''boundary''\<rparr>"
  using classify_clamps_urgency [OF sample_reply [OF loads_0]]
    classify_clamps_urgency [OF sample_reply [OF loads_minus_3]]
    classify_clamps_urgency [OF sample_reply [OF loads_7]]
    classify_clamps_urgency [OF sample_reply [OF loads_1]]
    classify_clamps_urgency [OF sample_reply [OF loads_5]]
  by auto

section \<open>The threshold comparison\<close>

text \<open>
  Claim C7. On the classify path (the filter returned the action \<open>CLASSIFY\<close> and
  \<open>classify\<close> returned the classification \<open>c\<close>), \<open>handle_message\<close> makes exactly one
  call of \<open>notify\<close> when the urgency of \<open>c\<close> equals the configured threshold, and none
  when it is below; above the threshold it makes the one call too.
\<close>

theorem threshold_comparison_inclusive:
  assumes "pre_filter env msg config bot_user_id = Inr result" and "action result = CLASSIFY"
    and "classify env msg config = Inr c"
  shows "(urgency c = urgency_threshold config \<longrightarrow>
            handle_message env (Some msg) config bot_user_id =
              Inr [Notify msg (reason c) (Some (urgency c))])
       \<and> (urgency c < urgency_threshold config \<longrightarrow>
            handle_message env (Some msg) config bot_user_id = Inr [])
       \<and> (urgency_threshold config < urgency c \<longrightarrow>
            handle_message env (Some msg) config bot_user_id =
              Inr [Notify msg (reason c) (Some (urgency c))])"
  using handle_message_classify_path [OF assms] by simp

lemma classify_sample_reply:
  assumes "sample_json_loads (reply_text digits r) = Inr (reply_doc u r)"
  shows "classify (sample_env (ollama_response (reply_text digits r))) make_msg default_config
           = Inr \<lparr>urgency = max 1 (min 5 u), reason = r\<rparr>"
  using sample_reply [OF assms] by (simp add: classify_def)

text \<open>
  With the default threshold 3: a reply of urgency 3 gives the one call, a reply of
  urgency 2 gives none.
\<close>

theorem threshold_comparison_inclusive_witness:
  "handle_message (sample_env (ollama_response (reply_text ''3'' ''relevant''))) (Some make_msg)
     default_config ''U_BOT'' = Inr [Notify make_msg ''relevant'' (Some 3)]
   \<and> handle_message (sample_env (ollama_response (reply_text ''2'' ''routine''))) (Some make_msg)
     default_config ''U_BOT'' = Inr []"
proof -
  have thr: "urgency_threshold default_config = 3"
    by (simp add: default_config_def)
  have act: "action \<lparr>action = CLASSIFY, rule = ''default''\<rparr> = CLASSIFY"
    by simp
  show ?thesis
    using threshold_comparison_inclusive [OF pre_filter_make_msg act
        classify_sample_reply [OF loads_3]]
      threshold_comparison_inclusive [OF pre_filter_make_msg act
        classify_sample_reply [OF loads_2]]
      thr
    by simp
qed

section \<open>The urgency level of a notification\<close>

text \<open>
  Claim C9. \<open>_urgency_level\<close> maps the scores 1 and 2 to \<open>low\<close>, 3 to \<open>normal\<close>, 4 and
  5 to \<open>critical\<close>, and the absent score of the force-notify path to \<open>normal\<close>.
\<close>

theorem urgency_level_mapping:
  "urgency_level (Some 1) = ''low'' \<and> urgency_level (Some 2) = ''low''
   \<and> urgency_level (Some 3) = ''normal''
   \<and> urgency_level (Some 4) = ''critical'' \<and> urgency_level (Some 5) = ''critical''
   \<and> urgency_level None = ''normal''"
  by (simp add: urgency_level_def)

section \<open>The loop over the keywords\<close>

lemma match_keywords_Cons:
  "match_keywords env (kw # kws) msg =
     (case keyword_test env kw msg of
        Inl e \<Rightarrow> Inl e
      | Inr found \<Rightarrow>
          if found
          then Inr (Some \<lparr>action = kw_action kw, rule = ''keyword:'' @ kw_pattern kw\<rparr>)
          else match_keywords env kws msg)"
  by (simp add: keyword_test_def Let_def)

lemma match_keywords_skip:
  assumes "\<forall>k\<in>set pre. keyword_test env k msg = Inr False"
  shows "match_keywords env (pre @ rest) msg = match_keywords env rest msg"
  using assms
proof (induction pre)
  case Nil
  then show ?case by simp
next
  case (Cons k pre)
  then show ?case by (simp only: append_Cons match_keywords_Cons) simp
qed

lemma match_keywords_first:
  assumes "\<forall>k\<in>set pre. keyword_test env k msg = Inr False"
    and "keyword_test env kw msg = Inr True"
  shows "match_keywords env (pre @ kw # post) msg =
           Inr (Some \<lparr>action = kw_action kw, rule = ''keyword:'' @ kw_pattern kw\<rparr>)"
  using assms(2) by (simp only: match_keywords_skip [OF assms(1)] match_keywords_Cons) simp

lemma pre_filter_keyword:
  assumes "sender_id msg \<noteq> bot_user_id" and "\<not> is_bot msg"
    and "match_keywords env (keywords config) msg = Inr (Some result)"
  shows "pre_filter env msg config bot_user_id = Inr result"
  using assms by (simp add: pre_filter_def)
















lemma keyword_test_empty:
  assumes "kw_pattern kw = []"
  shows "keyword_test env kw msg = Inr True"
  using assms by (simp add: keyword_test_def startswith_def lower_def isascii_def)

lemma default_rules_self: "rules default_config ''self'' = Some SKIP"
  by (simp add: default_config_def DEFAULT_RULES_def)

lemma default_rules_bots: "rules default_config ''bots'' = Some SKIP"
  by (simp add: default_config_def DEFAULT_RULES_def)



lemmas run_lower =
  lower_def isascii_def lower_char_def ascii_uppercase_def ascii_lowercase_def




text \<open>
  Beyond ASCII the test follows \<open>str.lower()\<close> of the environment: the French word in
  small letters, as a plain keyword, matches the same word in capitals.
\<close>

lemma test_ecole:
  "keyword_test offline \<lparr>kw_pattern = ecole_lower, kw_action = FORCE_NOTIFY\<rparr>
     (make_msg\<lparr>text := ecole_upper\<rparr>) = Inr True"
  by (simp add: keyword_test_def startswith_def lower_def isascii_def offline_def
      sample_env_def sample_str_lower_def ecole_lower_def ecole_upper_def alpha_sigma_def
      capital_sigma_def sublist_code)

section \<open>What configuration loading guarantees\<close>

lemma load_rules_dom:
  "load_rules raw_rules acc = Inr rs \<Longrightarrow> dom acc \<subseteq> dom rs"
proof (induction raw_rules arbitrary: acc)
  case Nil
  then show ?case by simp
next
  case (Cons entry raw_rules)
  obtain key v where entry: "entry = (key, v)"
    by (cases entry)
  show ?case
  proof (cases "\<exists>name a. key = PStr name \<and> name \<in> set VALID_RULE_KEYS \<and> parse_action v = Inr a")
    case True
    then obtain name a where "key = PStr name" "name \<in> set VALID_RULE_KEYS" "parse_action v = Inr a"
      by blast
    with Cons.prems entry have "load_rules raw_rules (acc(name \<mapsto> a)) = Inr rs"
      by simp
    from Cons.IH [OF this] have "dom (acc(name \<mapsto> a)) \<subseteq> dom rs" .
    moreover have "dom acc \<subseteq> dom (acc(name \<mapsto> a))"
      by (simp add: subset_insertI)
    ultimately show ?thesis by (rule order_trans [rotated])
  next
    case False
    with Cons.prems entry have "load_rules raw_rules acc = Inr rs"
      by (auto split: pyval.splits if_splits sum.splits)
    then show ?thesis by (rule Cons.IH)
  qed
qed

lemma validate_config_rules:
  "validate_config c = Inr config \<Longrightarrow> rules config = rules c"
  by (auto simp add: validate_config_def bind_exn_def split: sum.splits)

lemma default_rules_dom: "dom DEFAULT_RULES = set VALID_RULE_KEYS"
  by (auto simp add: DEFAULT_RULES_def VALID_RULE_KEYS_def split: if_splits)

lemma bind_exn_Inr:
  "bind_exn m f = Inr y \<longleftrightarrow> (\<exists>x. m = Inr x \<and> f x = Inr y)"
  by (cases m) (simp_all add: bind_exn_def)

lemma load_config_rules:
  assumes "load_config env raw = Inr config"
  shows "set VALID_RULE_KEYS \<subseteq> dom (rules config)"
proof -
  obtain d where d: "(if raw = PNone then PDict [] else raw) = PDict d"
    using assms
    by (cases "if raw = PNone then PDict [] else raw") (simp_all add: load_config_def)
  with assms have "\<exists>rs. (case dict_get d ''rules'' of
                      None \<Rightarrow> Inr DEFAULT_RULES
                    | Some (PDict raw_rules) \<Rightarrow> load_rules raw_rules DEFAULT_RULES
                    | Some _ \<Rightarrow> Inl ValueError) = Inr rs \<and> rules config = rs"
    by (auto simp add: load_config_def bind_exn_Inr dest!: validate_config_rules)
  then have "dom DEFAULT_RULES \<subseteq> dom (rules config)"
    by (auto split: option.splits pyval.splits dest: load_rules_dom)
  with default_rules_dom show ?thesis by simp
qed

lemma keyword_test_defined:
  assumes "startswith (kw_pattern kw) ''regex:'' \<longrightarrow>
             (\<exists>found. re_search env (drop (length ''regex:'') (kw_pattern kw)) (text msg)
                IGNORECASE = Inr found)"
  shows "\<exists>found. keyword_test env kw msg = Inr found"
  using assms by (auto simp add: keyword_test_def)

lemma match_keywords_total:
  assumes "\<forall>kw\<in>set kws. \<exists>found. keyword_test env kw msg = Inr found"
  shows "\<exists>r. match_keywords env kws msg = Inr r"
  using assms
proof (induction kws)
  case Nil
  then show ?case by simp
next
  case (Cons kw kws)
  then obtain found where "keyword_test env kw msg = Inr found"
    by auto
  moreover from Cons obtain r where "match_keywords env kws msg = Inr r"
    by auto
  ultimately show ?case
    by (simp only: match_keywords_Cons) simp
qed

lemma rule_action_total:
  assumes "name \<in> dom (rules config)"
  shows "\<exists>r. rule_action config name label = Inr r"
  using assms by (auto simp add: rule_action_def)

lemma pre_filter_total:
  assumes rs: "set VALID_RULE_KEYS \<subseteq> dom (rules config)"
    and kws: "\<forall>kw\<in>set (keywords config). \<exists>found. keyword_test env kw msg = Inr found"
  shows "\<exists>r. pre_filter env msg config bot_user_id = Inr r"
proof -
  from rs have "\<exists>r. rule_action config name label = Inr r"
    if "name \<in> set VALID_RULE_KEYS" for name label
    using that rule_action_total by blast
  then have ra: "\<exists>r. rule_action config ''self'' ''self'' = Inr r"
    "\<exists>r. rule_action config ''bots'' ''bots'' = Inr r"
    "\<exists>r. rule_action config ''mentions'' ''mentions'' = Inr r"
    "\<exists>r. rule_action config ''dms'' ''dms'' = Inr r"
    "\<exists>r. rule_action config ''default'' ''default'' = Inr r"
    by (simp_all add: VALID_RULE_KEYS_def)
  from match_keywords_total [OF kws] obtain m
    where m: "match_keywords env (keywords config) msg = Inr m"
    by blast
  show ?thesis
    using ra m by (auto simp add: pre_filter_def split: option.splits)
qed

lemma load_unclosed_group:
  "load_config offline unclosed_group_yaml = Inr unclosed_group_config"
  by (simp add: load_config_def unclosed_group_yaml_def unclosed_group_config_def
      default_config_def default_loaded_def dict_get_def bind_exn_def parse_action_def
      validate_config_def validate_threshold_def validate_timeout_def)

lemma load_incident:
  "load_config offline incident_yaml = Inr incident_config"
  by (simp add: load_config_def incident_yaml_def incident_config_def
      default_config_def default_loaded_def dict_get_def bind_exn_def parse_action_def
      validate_config_def validate_threshold_def validate_timeout_def)

lemma loaded_self_rule:
  assumes "load_config env raw = Inr config" and "sender_id msg = bot_user_id"
  shows "\<exists>a. pre_filter env msg config bot_user_id = Inr \<lparr>action = a, rule = ''self''\<rparr>"
proof -
  from load_config_rules [OF assms(1)] obtain a where "rules config ''self'' = Some a"
    by (auto simp add: VALID_RULE_KEYS_def)
  with assms(2) show ?thesis
    by (simp add: pre_filter_def rule_action_def)
qed

lemma loaded_bots_rule:
  assumes "load_config env raw = Inr config" and "sender_id msg \<noteq> bot_user_id"
    and "is_bot msg"
  shows "\<exists>a. pre_filter env msg config bot_user_id = Inr \<lparr>action = a, rule = ''bots''\<rparr>"
proof -
  from load_config_rules [OF assms(1)] obtain a where "rules config ''bots'' = Some a"
    by (auto simp add: VALID_RULE_KEYS_def)
  with assms(2,3) show ?thesis
    by (simp add: pre_filter_def rule_action_def)
qed

section \<open>The self rule\<close>

text \<open>
  Claim C4. For a message whose \<open>sender_id\<close> is the bot's own user id, \<open>pre_filter\<close>
  returns the rule \<open>self\<close> with the action that the configuration gives to \<open>self\<close>,
  whatever the other fields of the message, the keywords and the channels are. (A
  configuration always has that rule: \<open>load_config\<close> starts from the five default
  rules, see \<open>loaded_self_rule\<close>.)
\<close>

theorem self_rule_first:
  assumes "rules config ''self'' = Some a" and "sender_id msg = bot_user_id"
  shows "pre_filter env msg config bot_user_id = Inr \<lparr>action = a, rule = ''self''\<rparr>"
  using assms by (simp add: pre_filter_def rule_action_def)

text \<open>
  A message of the bot's own that is also flagged as a bot's, mentions the user, is a
  direct message and holds a keyword.
\<close>

theorem self_rule_first_witness:
  "pre_filter offline (loud_msg\<lparr>sender_id := ''U_BOT''\<rparr>) incident_config ''U_BOT'' =
     Inr \<lparr>action = SKIP, rule = ''self''\<rparr>"
proof -
  have r: "rules incident_config ''self'' = Some SKIP"
    using default_rules_self by (simp add: incident_config_def)
  have s: "sender_id (loud_msg\<lparr>sender_id := ''U_BOT''\<rparr>) = ''U_BOT''"
    by simp
  show ?thesis
    by (rule self_rule_first [OF r s])
qed

section \<open>The bots rule\<close>

text \<open>
  Claim C5. For a message flagged \<open>is_bot\<close> whose sender is not the bot's own user,
  \<open>pre_filter\<close> returns the rule \<open>bots\<close> with the action configured for it, whatever
  the keywords (and the later rules) are: the keyword loop is not reached.
\<close>

theorem bots_rule_before_keywords:
  assumes "rules config ''bots'' = Some a" and "sender_id msg \<noteq> bot_user_id" and "is_bot msg"
  shows "pre_filter env msg config bot_user_id = Inr \<lparr>action = a, rule = ''bots''\<rparr>"
  using assms by (simp add: pre_filter_def rule_action_def)

text \<open>The same message from another sender: its text does hold a keyword of the configuration.\<close>

theorem bots_rule_before_keywords_witness:
  "pre_filter offline loud_msg incident_config ''U_BOT'' = Inr \<lparr>action = SKIP, rule = ''bots''\<rparr>
   \<and> keyword_test offline \<lparr>kw_pattern = ''production down'', kw_action = FORCE_NOTIFY\<rparr> loud_msg
       = Inr True"
proof -
  have r: "rules incident_config ''bots'' = Some SKIP"
    using default_rules_bots by (simp add: incident_config_def)
  have s: "sender_id loud_msg \<noteq> ''U_BOT''"
    by (simp add: loud_msg_def make_msg_def)
  have b: "is_bot loud_msg"
    by (simp add: loud_msg_def)
  have k: "keyword_test offline \<lparr>kw_pattern = ''production down'', kw_action = FORCE_NOTIFY\<rparr>
       loud_msg = Inr True"
    by (simp add: keyword_test_def startswith_def loud_msg_def make_msg_def run_lower
        sublist_code)
  show ?thesis
    using bots_rule_before_keywords [OF r s b] k by simp
qed

section \<open>Keywords: case and order\<close>








section \<open>The empty pattern\<close>

text \<open>
  Claim C10. For a message that is neither the bot's own nor a bot's, the test of a
  plain entry with the empty pattern succeeds on every text, the empty one included.
  Hence when that entry heads the list, or when no entry before it matches, the
  decision is its action under the rule \<open>keyword:\<close>, whatever the entries after it,
  the mention and direct-message flags, the channel and the default rule are.
\<close>

theorem empty_pattern_shadows:
  assumes not_self: "sender_id msg \<noteq> bot_user_id" and not_bot: "\<not> is_bot msg"
    and empty: "kw_pattern kw = []"
  shows "keyword_test env kw msg = Inr True
       \<and> (\<forall>after. keywords config = kw # after \<longrightarrow>
            pre_filter env msg config bot_user_id =
              Inr \<lparr>action = kw_action kw, rule = ''keyword:''\<rparr>)
       \<and> (\<forall>before after.
            keywords config = before @ kw # after
            \<and> (\<forall>k\<in>set before. keyword_test env k msg = Inr False) \<longrightarrow>
            pre_filter env msg config bot_user_id =
              Inr \<lparr>action = kw_action kw, rule = ''keyword:''\<rparr>)"
proof -
  have t: "keyword_test env kw msg = Inr True"
    using empty by (rule keyword_test_empty)
  have general: "pre_filter env msg config bot_user_id =
              Inr \<lparr>action = kw_action kw, rule = ''keyword:''\<rparr>"
    if "keywords config = before @ kw # after"
      and "\<forall>k\<in>set before. keyword_test env k msg = Inr False" for before after
    using pre_filter_keyword [OF not_self not_bot, of env config]
      match_keywords_first [OF that(2) t, of after] that(1) empty
    by simp
  have first: "pre_filter env msg config bot_user_id =
              Inr \<lparr>action = kw_action kw, rule = ''keyword:''\<rparr>"
    if "keywords config = kw # after" for after
    using general [of "[]" after] that by simp
  show ?thesis
  proof (intro conjI allI impI)
    show "keyword_test env kw msg = Inr True" by (rule t)
  next
    fix after
    assume "keywords config = kw # after"
    then show "pre_filter env msg config bot_user_id =
              Inr \<lparr>action = kw_action kw, rule = ''keyword:''\<rparr>"
      by (rule first)
  next
    fix before after
    assume "keywords config = before @ kw # after
            \<and> (\<forall>k\<in>set before. keyword_test env k msg = Inr False)"
    then show "pre_filter env msg config bot_user_id =
              Inr \<lparr>action = kw_action kw, rule = ''keyword:''\<rparr>"
      using general [of before after] by simp
  qed
qed

text \<open>
  A direct message with the empty text that mentions the user: the empty pattern,
  second in the list, decides, and neither the entry after it nor the mention rule does.
\<close>

theorem empty_pattern_shadows_witness:
  "pre_filter offline (make_msg\<lparr>text := [], is_dm := True, is_mention := True\<rparr>) catch_all
     ''U_BOT'' = Inr \<lparr>action = SKIP, rule = ''keyword:''\<rparr>"
proof -
  let ?m = "make_msg\<lparr>text := [], is_dm := True, is_mention := True\<rparr>"
  let ?kw = "\<lparr>kw_pattern = [], kw_action = SKIP\<rparr>"
  have s: "sender_id ?m \<noteq> ''U_BOT''" and b: "\<not> is_bot ?m"
    by (simp_all add: make_msg_def)
  have e: "kw_pattern ?kw = []"
    by simp
  have k: "keywords catch_all =
      [\<lparr>kw_pattern = ''production down'', kw_action = FORCE_NOTIFY\<rparr>] @ ?kw
      # [\<lparr>kw_pattern = ''hello'', kw_action = FORCE_NOTIFY\<rparr>]"
    by (simp add: catch_all_def)
  have n: "\<forall>k\<in>set [\<lparr>kw_pattern = ''production down'', kw_action = FORCE_NOTIFY\<rparr>].
      keyword_test offline k ?m = Inr False"
    by (simp add: keyword_test_def startswith_def make_msg_def run_lower sublist_code)
  from empty_pattern_shadows [OF s b e, of offline catch_all]
  have "keywords catch_all =
      [\<lparr>kw_pattern = ''production down'', kw_action = FORCE_NOTIFY\<rparr>] @ ?kw
      # [\<lparr>kw_pattern = ''hello'', kw_action = FORCE_NOTIFY\<rparr>]
    \<and> (\<forall>k\<in>set [\<lparr>kw_pattern = ''production down'', kw_action = FORCE_NOTIFY\<rparr>].
      keyword_test offline k ?m = Inr False) \<longrightarrow>
    pre_filter offline ?m catch_all ''U_BOT'' = Inr \<lparr>action = kw_action ?kw, rule = ''keyword:''\<rparr>"
    by blast
  with k n show ?thesis by simp
qed

section \<open>A regex that does not compile\<close>

text \<open>
  Claim C3 says that a configuration accepted by loading never makes \<open>pre_filter\<close>
  fail, a regex that does not compile being rejected at load time. Loading checks of a
  keyword that it has a pattern, an action, and that the pattern is a string; it
  compiles nothing. The document \<open>keywords: [{pattern: "regex:(", action: skip}]\<close> is
  accepted, and \<open>pre_filter\<close> then raises \<open>re.error\<close> on a message that reaches the
  keyword loop.
\<close>

theorem unclosed_group_accepted_then_raises:
  "load_config offline unclosed_group_yaml = Inr unclosed_group_config
   \<and> pre_filter offline make_msg unclosed_group_config ''U_BOT'' = Inl ReError"
proof -
  have "pre_filter offline make_msg unclosed_group_config ''U_BOT'' = Inl ReError"
    by (simp add: pre_filter_def make_msg_def unclosed_group_config_def startswith_def
        offline_def sample_env_def literal_re_search_def has_special_def scoped_literal_def)
  with load_unclosed_group show ?thesis by simp
qed

text \<open>
  Claim C3, amended: for a configuration that \<open>load_config\<close> returned and any
  message, if \<open>re.search\<close> returns (rather than raises) on every regex-tagged keyword
  of the configuration, then \<open>pre_filter\<close> returns a decision.
\<close>

theorem pre_filter_total_when_regexes_compile:
  assumes loaded: "load_config env raw = Inr config"
    and compile: "\<forall>kw\<in>set (keywords config).
       startswith (kw_pattern kw) ''regex:'' \<longrightarrow>
       (\<exists>found. re_search env (drop (length ''regex:'') (kw_pattern kw)) (text msg)
          IGNORECASE = Inr found)"
  shows "\<exists>result. pre_filter env msg config bot_user_id = Inr result"
proof -
  from compile have "\<forall>kw\<in>set (keywords config). \<exists>found. keyword_test env kw msg = Inr found"
    using keyword_test_defined by blast
  with load_config_rules [OF loaded] show ?thesis
    by (rule pre_filter_total)
qed

text \<open>A document with a plain and a regex-tagged keyword, loaded and run on a message.\<close>

theorem pre_filter_total_when_regexes_compile_witness:
  "load_config offline incident_yaml = Inr incident_config
   \<and> pre_filter offline (make_msg\<lparr>text := ''New P0 INCIDENT declared''\<rparr>) incident_config
       ''U_BOT'' = Inr \<lparr>action = CLASSIFY, rule = ''keyword:regex:incident''\<rparr>"
proof -
  let ?i = "make_msg\<lparr>text := ''New P0 INCIDENT declared''\<rparr>"
  have c: "\<forall>kw\<in>set (keywords incident_config).
       startswith (kw_pattern kw) ''regex:'' \<longrightarrow>
       (\<exists>found. re_search offline (drop (length ''regex:'') (kw_pattern kw)) (text ?i)
          IGNORECASE = Inr found)"
    by (simp add: incident_config_def startswith_def offline_def sample_env_def
        literal_re_search_def has_special_def)
  from pre_filter_total_when_regexes_compile [OF load_incident c, of "''U_BOT''"]
  obtain result where r: "pre_filter offline ?i incident_config ''U_BOT'' = Inr result"
    by blast
  have "pre_filter offline ?i incident_config ''U_BOT'' =
      Inr \<lparr>action = CLASSIFY, rule = ''keyword:regex:incident''\<rparr> \<or>
    (\<forall>x. pre_filter offline ?i incident_config ''U_BOT'' \<noteq> Inr x)"
    by (simp add: pre_filter_def make_msg_def incident_config_def startswith_def
        offline_def sample_env_def literal_re_search_def has_special_def run_lower
        sublist_code)
  with r load_incident show ?thesis by simp
qed

end
